theory Spec2Isabelle
  imports Main
begin

section \<open>Python values and exceptions\<close>

text \<open>
  The raw repository records returned by a connector are Python dicts of JSON scalars.
  Only the scalar values are modelled (no floats, no nested lists or dicts): the
  collector reads the fields \<open>id\<close> and \<open>name\<close> only.
\<close>

datatype pyval = PyNone | PyBool bool | PyInt int | PyStr string

text \<open>Python truthiness, the test of \<^verbatim>\<open>if latest_commit:\<close>.\<close>

fun truthy :: "pyval \<Rightarrow> bool" where
  "truthy PyNone = False"
| "truthy (PyBool b) = b"
| "truthy (PyInt i) = (i \<noteq> 0)"
| "truthy (PyStr s) = (s \<noteq> [])"

definition digit_char :: "nat \<Rightarrow> char" where
  "digit_char d = ''0123456789'' ! d"

fun str_nat :: "nat \<Rightarrow> string" where
  "str_nat n = (if n < 10 then [digit_char n] else str_nat (n div 10) @ [digit_char (n mod 10)])"

declare str_nat.simps [simp del]

definition str_int :: "int \<Rightarrow> string" where
  "str_int i = (if i < 0 then ''-'' @ str_nat (nat (- i)) else str_nat (nat i))"

text \<open>Python's \<^verbatim>\<open>str(v)\<close>, which is also how an f-string formats \<open>v\<close>.\<close>

fun py_str :: "pyval \<Rightarrow> string" where
  "py_str PyNone = ''None''"
| "py_str (PyBool b) = (if b then ''True'' else ''False'')"
| "py_str (PyInt i) = str_int i"
| "py_str (PyStr s) = s"

text \<open>
  The exceptions that can reach the collector. The first four are the classes of
  \<^verbatim>\<open>requests.exceptions\<close>: \<open>HTTPError\<close>, \<open>ConnectionError\<close> and \<open>Timeout\<close> are
  subclasses of \<open>RequestException\<close>, and none of them is a subclass of another of the
  three. Each exception carries its message.
\<close>

datatype exn =
    HTTPError string
  | ConnectionError string
  | Timeout string
  | RequestException string
  | KeyError string
  | OtherException string

text \<open>\<^verbatim>\<open>except requests.exceptions.HTTPError\<close> catches exactly these.\<close>

fun is_HTTPError :: "exn \<Rightarrow> bool" where
  "is_HTTPError (HTTPError m) = True"
| "is_HTTPError e = False"

text \<open>\<^verbatim>\<open>except requests.exceptions.RequestException\<close> catches exactly these.\<close>

fun is_RequestException :: "exn \<Rightarrow> bool" where
  "is_RequestException (HTTPError m) = True"
| "is_RequestException (ConnectionError m) = True"
| "is_RequestException (Timeout m) = True"
| "is_RequestException (RequestException m) = True"
| "is_RequestException e = False"

fun exn_str :: "exn \<Rightarrow> string" where
  "exn_str (HTTPError m) = m"
| "exn_str (ConnectionError m) = m"
| "exn_str (Timeout m) = m"
| "exn_str (RequestException m) = m"
| "exn_str (KeyError m) = m"
| "exn_str (OtherException m) = m"

definition apos :: string where
  "apos = [CHR 0x27]"

text \<open>A dict with string keys, in insertion order; \<^verbatim>\<open>d[k]\<close> raises KeyError on a missing key.\<close>

type_synonym raw_repository = "(string \<times> pyval) list"

definition getitem :: "raw_repository \<Rightarrow> string \<Rightarrow> exn + pyval" where
  "getitem d k = (case map_of d k of None \<Rightarrow> Inl (KeyError (apos @ k @ apos)) | Some v \<Rightarrow> Inr v)"

section \<open>The data model\<close>

text \<open>
  Modelled from the spec: the classes \<open>SimpleRepository\<close> and \<open>ActiveRepositories\<close> of
  \<^verbatim>\<open>vcs_scraper.model\<close> (spec section 3: a SimpleRepository has an id and a name; an
  ActiveRepositories has a project key, a VCS instance name and an ordered sequence of
  SimpleRepository). The fields hold the values the constructor is given.
\<close>

record simple_repository =
  repo_id :: string
  repo_name :: pyval

record active_repositories =
  project_key :: string
  repositories :: "simple_repository list"
  vcs_instance_name :: string

text \<open>
  The effects of a run, in the order they happen: log entries, the calls made on the
  connector, the calls of \<^verbatim>\<open>celery_client.send_task\<close> (task name, the \<open>repository\<close>
  keyword argument, queue) and the calls of \<^verbatim>\<open>requests.post\<close> (url, headers, json body).
\<close>

datatype event =
    LogInfo string
  | LogError string
  | CallGetRepos string
  | CallGetLatestCommit string pyval
  | CallExportRepository raw_repository pyval string
  | SendTask string string string
  | Post string "(string \<times> string) list" active_repositories

fun is_SendTask :: "event \<Rightarrow> bool" where
  "is_SendTask (SendTask t r q) = True"
| "is_SendTask e = False"

fun is_Post :: "event \<Rightarrow> bool" where
  "is_Post (Post u h b) = True"
| "is_Post e = False"

fun is_connector_call :: "event \<Rightarrow> bool" where
  "is_connector_call (CallGetRepos p) = True"
| "is_connector_call (CallGetLatestCommit p n) = True"
| "is_connector_call (CallExportRepository r c v) = True"
| "is_connector_call e = False"

text \<open>
  The connector (\<^verbatim>\<open>vcs_client\<close>) is a parameter: its three methods, each returning a
  value or raising. \<open>'r\<close> is the type of the task descriptor (\<open>Repository\<close>) that
  \<open>export_repository\<close> builds; the collector never looks inside it.
\<close>

record 'r vcs_client =
  get_repos :: "string \<Rightarrow> exn + raw_repository list"
  get_latest_commit :: "string \<Rightarrow> pyval \<Rightarrow> exn + pyval"
  export_repository :: "raw_repository \<Rightarrow> pyval \<Rightarrow> string \<Rightarrow> exn + 'r"

text \<open>The response of the backend, as far as \<^verbatim>\<open>raise_for_status\<close> reads it.\<close>

record response =
  status_code :: nat
  reason :: string

text \<open>
  Everything else the module reaches outside itself: the descriptor's
  \<^verbatim>\<open>model_dump_json\<close>, the Celery client, \<^verbatim>\<open>requests.post\<close>, the two environment
  variables of the backend address, the VCS instances file, the connector factory and
  the two constants of \<^verbatim>\<open>vcs_scraper.constants\<close>. \<open>'c\<close> is the type of a VCS instance
  configuration.
\<close>

record ('r, 'c) services =
  model_dump_json :: "'r \<Rightarrow> string"
  send_task :: "string \<Rightarrow> string \<Rightarrow> string \<Rightarrow> exn option"
  requests_post :: "string \<Rightarrow> (string \<times> string) list \<Rightarrow> active_repositories \<Rightarrow> exn + response"
  RESC_API_NO_AUTH_SERVICE_HOST :: string
  RESC_API_NO_AUTH_SERVICE_PORT :: string
  load_vcs_instances_into_map :: "exn + (string \<times> 'c) list"
  create_client_from_vcs_instance :: "'c \<Rightarrow> exn + 'r vcs_client"
  SECRET_SCANNER_TASK_NAME :: string
  REPOSITORY_QUEUE :: string

section \<open>The repository collector\<close>

subsection \<open>\<^verbatim>\<open>extract_repository_id_and_name\<close>\<close>

fun extract_repository_id_and_name :: "raw_repository list \<Rightarrow> exn + simple_repository list" where
  "extract_repository_id_and_name [] = Inr []"
| "extract_repository_id_and_name (repo # rest) =
     (case getitem repo ''id'' of
        Inl e \<Rightarrow> Inl e
      | Inr i \<Rightarrow>
          (case getitem repo ''name'' of
             Inl e \<Rightarrow> Inl e
           | Inr n \<Rightarrow>
               (case extract_repository_id_and_name rest of
                  Inl e \<Rightarrow> Inl e
                | Inr srs \<Rightarrow> Inr (\<lparr>repo_id = py_str i, repo_name = n\<rparr> # srs))))"

subsection \<open>\<^verbatim>\<open>send_repository_id_to_backend\<close>\<close>

text \<open>
  \<^verbatim>\<open>Response.raise_for_status\<close> of the requests library: an HTTPError for a status
  from 400 to 599, nothing otherwise.
\<close>

definition raise_for_status :: "string \<Rightarrow> response \<Rightarrow> exn option" where
  "raise_for_status url r =
     (if 400 \<le> status_code r \<and> status_code r < 500
      then Some (HTTPError (str_nat (status_code r) @ '' Client Error: '' @ reason r @ '' for url: '' @ url))
      else if 500 \<le> status_code r \<and> status_code r < 600
      then Some (HTTPError (str_nat (status_code r) @ '' Server Error: '' @ reason r @ '' for url: '' @ url))
      else None)"

text \<open>
  The body of the \<^verbatim>\<open>try\<close>: the post, then \<^verbatim>\<open>raise_for_status\<close>, then the log line.
  The json argument of the post is \<^verbatim>\<open>json.loads\<close> of the payload's own
  \<^verbatim>\<open>model_dump_json\<close>; it is modelled as the payload itself.
\<close>

definition post_and_check ::
  "('r, 'c) services \<Rightarrow> string \<Rightarrow> (string \<times> string) list \<Rightarrow> active_repositories
     \<Rightarrow> (exn + unit) \<times> event list" where
  "post_and_check sv url headers body =
     (case requests_post sv url headers body of
        Inl e \<Rightarrow> (Inl e, [Post url headers body])
      | Inr resp \<Rightarrow>
          (case raise_for_status url resp of
             Some e \<Rightarrow> (Inl e, [Post url headers body])
           | None \<Rightarrow>
               (Inr (), [Post url headers body,
                         LogInfo (''repository in project'' @ project_key body @ '' exists'')])))"

definition send_repository_id_to_backend ::
  "('r, 'c) services \<Rightarrow> simple_repository list \<Rightarrow> string \<Rightarrow> string \<Rightarrow> (exn + unit) \<times> event list" where
  "send_repository_id_to_backend sv repos vin pk =
     (let backend_url = ''http://'' @ RESC_API_NO_AUTH_SERVICE_HOST sv @ '':'' @ RESC_API_NO_AUTH_SERVICE_PORT sv;
          url = backend_url @ ''/resc/v1/repositories/active'';
          headers = [(''Content-Type'', ''application/json'')];
          body = \<lparr>project_key = pk, repositories = repos, vcs_instance_name = vin\<rparr>
      in case post_and_check sv url headers body of
           (Inr u, ev) \<Rightarrow> (Inr (), ev)
         | (Inl e, ev) \<Rightarrow>
             if is_RequestException e
             then (Inr (), ev @ [LogInfo (''Error updating repository in project '' @ pk @ '': '' @ exn_str e)])
             else (Inl e, ev))"

subsection \<open>\<^verbatim>\<open>extract_project_information\<close>\<close>

definition repo_path :: "string \<Rightarrow> pyval \<Rightarrow> string" where
  "repo_path pk n = apos @ pk @ ''/'' @ py_str n @ apos"

text \<open>The body of the \<^verbatim>\<open>try\<close> for one repository, given the tasks collected so far.\<close>

definition try_repository ::
  "'r vcs_client \<Rightarrow> string \<Rightarrow> string \<Rightarrow> raw_repository \<Rightarrow> 'r list \<Rightarrow> (exn + 'r list) \<times> event list" where
  "try_repository vc pk vin repository project_tasks =
     (case getitem repository ''name'' of
        Inl e \<Rightarrow> (Inl e, [])
      | Inr n \<Rightarrow>
          (let ev1 = [LogInfo (''Fetching latest commit for repository: '' @ repo_path pk n),
                      CallGetLatestCommit pk n]
           in case get_latest_commit vc pk n of
                Inl e \<Rightarrow> (Inl e, ev1)
              | Inr latest_commit \<Rightarrow>
                  (let ev2 = ev1 @ [CallExportRepository repository latest_commit vin]
                   in case export_repository vc repository latest_commit vin of
                        Inl e \<Rightarrow> (Inl e, ev2)
                      | Inr task_parameters \<Rightarrow>
                          if truthy latest_commit
                          then (Inr (project_tasks @ [task_parameters]),
                                ev2 @ [LogInfo (''Information for repository: '' @ repo_path pk n
                                          @ '' was fetched successfully'')])
                          else (Inr project_tasks,
                                ev2 @ [LogInfo (''Repository: '' @ repo_path pk n
                                          @ '' has no commits, skipping'')]))))"

text \<open>One iteration of the loop: the \<^verbatim>\<open>try\<close> with its \<^verbatim>\<open>except HTTPError\<close>.\<close>

definition process_repository ::
  "'r vcs_client \<Rightarrow> string \<Rightarrow> string \<Rightarrow> raw_repository \<Rightarrow> 'r list \<Rightarrow> (exn + 'r list) \<times> event list" where
  "process_repository vc pk vin repository project_tasks =
     (case try_repository vc pk vin repository project_tasks of
        (Inr tasks, ev) \<Rightarrow> (Inr tasks, ev)
      | (Inl e, ev) \<Rightarrow>
          if is_HTTPError e
          then (case getitem repository ''name'' of
                  Inl e' \<Rightarrow> (Inl e', ev)
                | Inr n \<Rightarrow>
                    (Inr project_tasks,
                     ev @ [LogError (''Error while processing repository '' @ repo_path pk n
                             @ '': Unable to obtain the repository'' @ apos
                             @ ''s latest commit: '' @ exn_str e)]))
          else (Inl e, ev))"

text \<open>The \<^verbatim>\<open>for\<close> loop over the listing.\<close>

fun extract_loop ::
  "'r vcs_client \<Rightarrow> string \<Rightarrow> string \<Rightarrow> raw_repository list \<Rightarrow> 'r list \<Rightarrow> (exn + 'r list) \<times> event list" where
  "extract_loop vc pk vin [] project_tasks = (Inr project_tasks, [])"
| "extract_loop vc pk vin (repository # rest) project_tasks =
     (case process_repository vc pk vin repository project_tasks of
        (Inl e, ev) \<Rightarrow> (Inl e, ev)
      | (Inr tasks, ev) \<Rightarrow>
          (case extract_loop vc pk vin rest tasks of (res, ev') \<Rightarrow> (res, ev @ ev')))"

definition extract_project_information ::
  "('r, 'c) services \<Rightarrow> 'r vcs_client \<Rightarrow> string \<Rightarrow> string \<Rightarrow> (exn + 'r list) \<times> event list" where
  "extract_project_information sv vc pk vin =
     (let ev0 = [LogInfo (''Fetching repositories for project: '' @ apos @ pk @ apos
                    @ '' in vcs instance '' @ apos @ vin @ apos),
                 CallGetRepos pk]
      in case get_repos vc pk of
           Inl e \<Rightarrow> (Inl e, ev0)
         | Inr project_repositories \<Rightarrow>
             (let ev1 = ev0 @ [LogInfo (''Fetched '' @ str_nat (length project_repositories)
                                 @ '' repositories for project: '' @ apos @ pk @ apos)]
              in case extract_loop vc pk vin project_repositories [] of
                   (Inl e, ev2) \<Rightarrow> (Inl e, ev1 @ ev2)
                 | (Inr project_tasks, ev2) \<Rightarrow>
                     (case extract_repository_id_and_name project_repositories of
                        Inl e \<Rightarrow> (Inl e, ev1 @ ev2)
                      | Inr simple \<Rightarrow>
                          (case send_repository_id_to_backend sv simple vin pk of
                             (Inl e, ev3) \<Rightarrow> (Inl e, ev1 @ ev2 @ ev3)
                           | (Inr u, ev3) \<Rightarrow> (Inr project_tasks, ev1 @ ev2 @ ev3)))))"

subsection \<open>\<^verbatim>\<open>send_tasks_to_celery_queue\<close>\<close>

fun send_tasks_to_celery_queue ::
  "('r, 'c) services \<Rightarrow> string \<Rightarrow> string \<Rightarrow> 'r list \<Rightarrow> (exn + unit) \<times> event list" where
  "send_tasks_to_celery_queue sv task_name queue_name [] = (Inr (), [])"
| "send_tasks_to_celery_queue sv task_name queue_name (task # rest) =
     (case send_task sv task_name (model_dump_json sv task) queue_name of
        Some e \<Rightarrow> (Inl e, [SendTask task_name (model_dump_json sv task) queue_name])
      | None \<Rightarrow>
          (case send_tasks_to_celery_queue sv task_name queue_name rest of
             (res, ev) \<Rightarrow> (res, SendTask task_name (model_dump_json sv task) queue_name # ev)))"

subsection \<open>\<^verbatim>\<open>collect_repositories\<close>\<close>

definition collect_repositories ::
  "('r, 'c) services \<Rightarrow> string \<Rightarrow> string \<Rightarrow> (exn + unit) \<times> event list" where
  "collect_repositories sv pk vin =
     (case load_vcs_instances_into_map sv of
        Inl e \<Rightarrow> (Inl e, [])
      | Inr vcs_instances_map \<Rightarrow>
          (let ev0 = [LogInfo (''Project processor received an azure project key: '' @ apos @ pk @ apos)]
           in case map_of vcs_instances_map vin of
                None \<Rightarrow> (Inl (KeyError (apos @ vin @ apos)), ev0)
              | Some inst \<Rightarrow>
                  (case create_client_from_vcs_instance sv inst of
                     Inl e \<Rightarrow> (Inl e, ev0)
                   | Inr vcs_client \<Rightarrow>
                       (case extract_project_information sv vcs_client pk vin of
                          (Inl e, ev1) \<Rightarrow> (Inl e, ev0 @ ev1)
                        | (Inr project_tasks, ev1) \<Rightarrow>
                            (case send_tasks_to_celery_queue sv (SECRET_SCANNER_TASK_NAME sv)
                                    (REPOSITORY_QUEUE sv) project_tasks of
                               (res, ev2) \<Rightarrow> (res, ev0 @ ev1 @ ev2))))))"

section \<open>Notions used to state the properties\<close>

text \<open>
  What the loop fetches for a listed record: the outcome of \<open>get_latest_commit\<close> on the
  record's name. A commit is present when the loop's test \<^verbatim>\<open>if latest_commit\<close> succeeds
  on it, so \<open>None\<close> and the empty string both count as absent.
\<close>

definition fetched_commit :: "'r vcs_client \<Rightarrow> string \<Rightarrow> raw_repository \<Rightarrow> exn + pyval" where
  "fetched_commit vc pk r =
     (case getitem r ''name'' of Inl e \<Rightarrow> Inl e | Inr n \<Rightarrow> get_latest_commit vc pk n)"

definition commit_present :: "'r vcs_client \<Rightarrow> string \<Rightarrow> raw_repository \<Rightarrow> bool" where
  "commit_present vc pk r = (case fetched_commit vc pk r of Inl e \<Rightarrow> False | Inr c \<Rightarrow> truthy c)"

text \<open>What \<open>export_repository\<close> gives for a listed record and the commit fetched for it.\<close>

definition exported :: "'r vcs_client \<Rightarrow> string \<Rightarrow> string \<Rightarrow> raw_repository \<Rightarrow> exn + 'r" where
  "exported vc pk vin r =
     (case fetched_commit vc pk r of Inl e \<Rightarrow> Inl e | Inr c \<Rightarrow> export_repository vc r c vin)"

text \<open>The tasks that the loop's iteration for one listed record adds to the task list.\<close>

definition new_tasks :: "'r vcs_client \<Rightarrow> string \<Rightarrow> string \<Rightarrow> raw_repository \<Rightarrow> 'r list" where
  "new_tasks vc pk vin r =
     (case fst (process_repository vc pk vin r []) of Inl e \<Rightarrow> [] | Inr ts \<Rightarrow> ts)"

section \<open>A concrete project\<close>

text \<open>
  A connector with three projects: \<open>P1\<close> lists A (commit abc), B (no commits) and C
  (commit def); \<open>P3\<close> lists D, whose commit fetch raises an HTTPError, and E (commit xyz);
  \<open>P4\<close> lists T, whose commit fetch times out, and E. Listing any other project fails.
\<close>

definition repoA :: raw_repository where "repoA = [(''id'', PyInt 1), (''name'', PyStr ''A'')]"
definition repoB :: raw_repository where "repoB = [(''id'', PyInt 2), (''name'', PyStr ''B'')]"
definition repoC :: raw_repository where "repoC = [(''id'', PyStr ''c-3''), (''name'', PyStr ''C'')]"
definition repoD :: raw_repository where "repoD = [(''id'', PyInt 4), (''name'', PyStr ''D'')]"
definition repoE :: raw_repository where "repoE = [(''id'', PyInt 5), (''name'', PyStr ''E'')]"
definition repoT :: raw_repository where "repoT = [(''id'', PyInt 6), (''name'', PyStr ''T'')]"

definition example_client :: "(string \<times> string \<times> string) vcs_client" where
  "example_client =
     \<lparr>get_repos = (\<lambda>pk.
        if pk = ''P1'' then Inr [repoA, repoB, repoC]
        else if pk = ''P3'' then Inr [repoD, repoE]
        else if pk = ''P4'' then Inr [repoT, repoE]
        else Inl (ConnectionError ''connection refused'')),
      get_latest_commit = (\<lambda>pk n.
        if n = PyStr ''A'' then Inr (PyStr ''abc'')
        else if n = PyStr ''B'' then Inr PyNone
        else if n = PyStr ''C'' then Inr (PyStr ''def'')
        else if n = PyStr ''D'' then Inl (HTTPError ''404 Client Error'')
        else if n = PyStr ''E'' then Inr (PyStr ''xyz'')
        else Inl (Timeout ''read timed out'')),
      export_repository = (\<lambda>r c v.
        case getitem r ''name'' of
          Inl e \<Rightarrow> Inl e
        | Inr n \<Rightarrow> Inr (py_str n, py_str c, v))\<rparr>"

definition example_services :: "(string \<times> string \<times> string, unit) services" where
  "example_services =
     \<lparr>model_dump_json = (\<lambda>(n, c, v). n @ '','' @ c @ '','' @ v),
      send_task = (\<lambda>tn p q. None),
      requests_post = (\<lambda>u h b. Inr \<lparr>status_code = 200, reason = ''OK''\<rparr>),
      RESC_API_NO_AUTH_SERVICE_HOST = ''backend'',
      RESC_API_NO_AUTH_SERVICE_PORT = ''8000'',
      load_vcs_instances_into_map = Inr [(''vcs1'', ())],
      create_client_from_vcs_instance = (\<lambda>c. Inr example_client),
      SECRET_SCANNER_TASK_NAME = ''scan'',
      REPOSITORY_QUEUE = ''repos''\<rparr>"

text \<open>
  The same services, with a queue client that refuses the task of \<open>A\<close> and a backend
  that is unreachable for project \<open>P1\<close> and answers 503 for every other project.
\<close>

definition failing_services :: "(string \<times> string \<times> string, unit) services" where
  "failing_services =
     example_services\<lparr>
       send_task := (\<lambda>tn p q. if p = ''A,abc,vcs1'' then Some (OtherException ''broker unreachable'') else None),
       requests_post := (\<lambda>u h b.
         if project_key b = ''P1'' then Inl (ConnectionError ''connection refused'')
         else Inr \<lparr>status_code = 503, reason = ''Service Unavailable''\<rparr>)\<rparr>"

text \<open>The same connector, with an \<open>export_repository\<close> that refuses an absent commit.\<close>

definition strict_client :: "(string \<times> string \<times> string) vcs_client" where
  "strict_client =
     example_client\<lparr>export_repository := (\<lambda>r c v.
        if c = PyNone then Inl (OtherException ''latest_commit must be a string'')
        else export_repository example_client r c v)\<rparr>"

text \<open>
  The same connector again, with a listing that ends in the record whose commit fetch
  times out: E (commit xyz), B (no commits), then T.
\<close>

definition late_timeout_client :: "(string \<times> string \<times> string) vcs_client" where
  "late_timeout_client = example_client\<lparr>get_repos := (\<lambda>pk. Inr [repoE, repoB, repoT])\<rparr>"

section \<open>Properties of the loop and of the two senders\<close>

lemmas ex_defs = repoA_def repoB_def repoC_def repoD_def repoE_def repoT_def
  example_client_def example_services_def
  extract_project_information_def process_repository_def try_repository_def
  send_repository_id_to_backend_def post_and_check_def raise_for_status_def
  collect_repositories_def getitem_def repo_path_def apos_def Let_def
  fetched_commit_def commit_present_def exported_def new_tasks_def

lemma process_repository_acc:
  "fst (process_repository vc pk vin r acc) =
     (case fst (process_repository vc pk vin r []) of
        Inl e \<Rightarrow> Inl e | Inr ts \<Rightarrow> Inr (acc @ ts))"
  by (simp add: process_repository_def try_repository_def Let_def split: sum.splits)

lemma process_repository_events:
  "snd (process_repository vc pk vin r acc) = snd (process_repository vc pk vin r [])"
  by (simp add: process_repository_def try_repository_def Let_def split: sum.splits)

lemma new_tasks_eq:
  "new_tasks vc pk vin r =
     (if commit_present vc pk r
      then (case exported vc pk vin r of Inl e \<Rightarrow> [] | Inr t \<Rightarrow> [t]) else [])"
  by (simp add: new_tasks_def commit_present_def exported_def fetched_commit_def
      process_repository_def try_repository_def Let_def split: sum.splits)

lemma extract_loop_tasks:
  "fst (extract_loop vc pk vin rs acc) = Inr tasks \<Longrightarrow>
     tasks = acc @ concat (map (new_tasks vc pk vin) rs)"
proof (induction rs arbitrary: acc)
  case Nil
  then show ?case by simp
next
  case (Cons r rs)
  obtain res ev where pr: "process_repository vc pk vin r acc = (res, ev)"
    by (cases "process_repository vc pk vin r acc")
  show ?case
  proof (cases res)
    case (Inl e)
    with Cons.prems pr show ?thesis by simp
  next
    case (Inr ts)
    from pr Inr have f: "fst (process_repository vc pk vin r acc) = Inr ts" by simp
    then have ts: "ts = acc @ new_tasks vc pk vin r"
      by (simp add: process_repository_acc [of vc pk vin r acc] new_tasks_def split: sum.splits)
    from Cons.prems pr Inr have "fst (extract_loop vc pk vin rs ts) = Inr tasks"
      by (simp split: prod.splits)
    from Cons.IH [OF this] ts show ?thesis by simp
  qed
qed


lemma extract_loop_append:
  "extract_loop vc pk vin (xs @ ys) acc =
     (case extract_loop vc pk vin xs acc of
        (Inl e, ev) \<Rightarrow> (Inl e, ev)
      | (Inr ts, ev) \<Rightarrow>
          (case extract_loop vc pk vin ys ts of (res, ev') \<Rightarrow> (res, ev @ ev')))"
  by (induction xs arbitrary: acc) (auto split: prod.splits sum.splits)

lemma process_repository_no_post:
  "x \<in> set (snd (process_repository vc pk vin r acc)) \<Longrightarrow> \<not> is_Post x \<and> \<not> is_SendTask x"
  by (auto simp: process_repository_def try_repository_def Let_def split: sum.splits if_splits)

lemma extract_loop_no_post:
  "x \<in> set (snd (extract_loop vc pk vin rs acc)) \<Longrightarrow> \<not> is_Post x \<and> \<not> is_SendTask x"
proof (induction rs arbitrary: acc)
  case Nil
  then show ?case by simp
next
  case (Cons r rs)
  obtain res ev where pr: "process_repository vc pk vin r acc = (res, ev)"
    by (cases "process_repository vc pk vin r acc")
  have ev: "\<And>y. y \<in> set ev \<Longrightarrow> \<not> is_Post y \<and> \<not> is_SendTask y"
    using process_repository_no_post [of _ vc pk vin r acc] pr by simp
  show ?case
  proof (cases res)
    case (Inl e)
    with Cons.prems pr ev show ?thesis by simp
  next
    case (Inr ts)
    obtain res' ev' where lp: "extract_loop vc pk vin rs ts = (res', ev')"
      by (cases "extract_loop vc pk vin rs ts")
    from Cons.prems pr Inr lp have "x \<in> set ev \<or> x \<in> set ev'" by simp
    then show ?thesis
    proof
      assume "x \<in> set ev" then show ?thesis using ev by blast
    next
      assume "x \<in> set ev'"
      then have "x \<in> set (snd (extract_loop vc pk vin rs ts))" using lp by simp
      then show ?thesis by (rule Cons.IH)
    qed
  qed
qed

lemma send_backend_events:
  "\<exists>url hd rest.
     snd (send_repository_id_to_backend sv srs vin pk)
       = Post url hd \<lparr>project_key = pk, repositories = srs, vcs_instance_name = vin\<rparr> # rest
     \<and> (\<forall>x\<in>set rest. \<not> is_Post x \<and> \<not> is_connector_call x \<and> \<not> is_SendTask x)"
  by (auto simp: send_repository_id_to_backend_def post_and_check_def Let_def
      split: sum.splits option.splits)

lemma send_tasks_events:
  "x \<in> set (snd (send_tasks_to_celery_queue sv tn qn ts)) \<Longrightarrow> is_SendTask x"
  by (induction ts) (auto split: option.splits prod.splits)

lemma send_tasks_all_ok:
  "\<forall>t\<in>set ts. send_task sv tn (model_dump_json sv t) qn = None \<Longrightarrow>
     send_tasks_to_celery_queue sv tn qn ts
       = (Inr (), map (\<lambda>t. SendTask tn (model_dump_json sv t) qn) ts)"
  by (induction ts) auto

lemma send_tasks_first_failure:
  "\<forall>t\<in>set pre. send_task sv tn (model_dump_json sv t) qn = None \<Longrightarrow>
   send_task sv tn (model_dump_json sv t) qn = Some e \<Longrightarrow>
     send_tasks_to_celery_queue sv tn qn (pre @ t # post)
       = (Inl e, map (\<lambda>t. SendTask tn (model_dump_json sv t) qn) (pre @ [t]))"
  by (induction pre) auto

lemma extract_ids_list_all2:
  "extract_repository_id_and_name rs = Inr srs \<Longrightarrow>
     list_all2 (\<lambda>r s. \<exists>i n. getitem r ''id'' = Inr i \<and> getitem r ''name'' = Inr n
                  \<and> s = \<lparr>repo_id = py_str i, repo_name = n\<rparr>) rs srs"
  by (induction rs arbitrary: srs) (auto split: sum.splits)

lemma extract_returns:
  assumes "get_repos vc pk = Inr repos"
      and "fst (extract_project_information sv vc pk vin) = Inr tasks"
  shows "fst (extract_loop vc pk vin repos []) = Inr tasks
       \<and> (\<exists>srs. extract_repository_id_and_name repos = Inr srs)"
  using assms
  by (auto simp: extract_project_information_def Let_def split: prod.splits sum.splits)

lemma extract_trace:
  assumes "get_repos vc pk = Inr repos"
      and "fst (extract_loop vc pk vin repos []) = Inr tasks"
      and "extract_repository_id_and_name repos = Inr srs"
  shows "\<exists>m1 m2. extract_project_information sv vc pk vin =
           (case fst (send_repository_id_to_backend sv srs vin pk) of
              Inl e \<Rightarrow> Inl e | Inr u \<Rightarrow> Inr tasks,
            [LogInfo m1, CallGetRepos pk, LogInfo m2]
              @ snd (extract_loop vc pk vin repos [])
              @ snd (send_repository_id_to_backend sv srs vin pk))"
  using assms
  by (auto simp: extract_project_information_def Let_def split: prod.splits sum.splits)

lemma new_tasks_present:
  assumes "fetched_commit vc pk r = Inr c" and "truthy c" and "export_repository vc r c vin = Inr t"
  shows "new_tasks vc pk vin r = [t]"
  using assms by (simp add: new_tasks_eq commit_present_def exported_def)

lemma new_tasks_absent:
  assumes "fetched_commit vc pk r = Inr c" and "\<not> truthy c"
  shows "new_tasks vc pk vin r = []"
  using assms by (simp add: new_tasks_eq commit_present_def)

section \<open>The claims\<close>

text \<open>
  C1 (as amended). Take a run whose listing returns a record \<open>r\<close> (at any position) and whose
  extraction returns. If the commit fetched for \<open>r\<close> is present and the connector builds
  the descriptor \<open>t\<close> from \<open>r\<close>, that commit and the run's \<open>vcs_instance_name\<close>, then the
  returned task list holds \<open>t\<close> exactly once for this listing entry, at its place between
  the tasks of the entries before it and those of the entries after it. When every
  enqueue succeeds, \<open>send_tasks_to_celery_queue\<close> then makes exactly one \<open>send_task\<close>
  call per descriptor, in order, each carrying the serialized descriptor; the call
  for \<open>t\<close> is among them.
\<close>

theorem one_task_per_present_commit:
  assumes listing: "get_repos vc pk = Inr (pre @ r # post)"
      and returns: "fst (extract_project_information sv vc pk vin) = Inr tasks"
      and fetched: "fetched_commit vc pk r = Inr c"
      and present: "truthy c"
      and built: "export_repository vc r c vin = Inr t"
      and sends: "\<forall>d\<in>set tasks. send_task sv tn (model_dump_json sv d) qn = None"
  shows "tasks = concat (map (new_tasks vc pk vin) pre) @ t # concat (map (new_tasks vc pk vin) post)
       \<and> send_tasks_to_celery_queue sv tn qn tasks
           = (Inr (), map (\<lambda>d. SendTask tn (model_dump_json sv d) qn) tasks)
       \<and> SendTask tn (model_dump_json sv t) qn
           \<in> set (snd (send_tasks_to_celery_queue sv tn qn tasks))"
proof -
  from extract_returns [OF listing returns]
  have "fst (extract_loop vc pk vin (pre @ r # post) []) = Inr tasks" by simp
  from extract_loop_tasks [OF this]
  have "tasks = concat (map (new_tasks vc pk vin) (pre @ r # post))" by simp
  moreover have "new_tasks vc pk vin r = [t]"
    by (rule new_tasks_present [OF fetched present built])
  ultimately have ts: "tasks = concat (map (new_tasks vc pk vin) pre) @ t # concat (map (new_tasks vc pk vin) post)"
    by simp
  note sent = send_tasks_all_ok [OF sends]
  from ts have "t \<in> set tasks" by simp
  with sent have "SendTask tn (model_dump_json sv t) qn
      \<in> set (snd (send_tasks_to_celery_queue sv tn qn tasks))" by simp
  with ts sent show ?thesis by blast
qed

theorem one_task_per_present_commit_witness:
  "get_repos example_client ''P1'' = Inr ([repoA, repoB] @ repoC # [])
   \<and> fetched_commit example_client ''P1'' repoC = Inr (PyStr ''def'')
   \<and> [(''A'', ''abc'', ''vcs1''), (''C'', ''def'', ''vcs1'')]
       = concat (map (new_tasks example_client ''P1'' ''vcs1'') [repoA, repoB])
           @ (''C'', ''def'', ''vcs1'') # concat (map (new_tasks example_client ''P1'' ''vcs1'') [])
   \<and> send_tasks_to_celery_queue example_services ''scan'' ''repos''
         [(''A'', ''abc'', ''vcs1''), (''C'', ''def'', ''vcs1'')]
       = (Inr (), [SendTask ''scan'' ''A,abc,vcs1'' ''repos'', SendTask ''scan'' ''C,def,vcs1'' ''repos''])"
proof -
  have a: "get_repos example_client ''P1'' = Inr ([repoA, repoB] @ repoC # [])"
    by (simp add: example_client_def)
  have b: "fst (extract_project_information example_services example_client ''P1'' ''vcs1'')
             = Inr [(''A'', ''abc'', ''vcs1''), (''C'', ''def'', ''vcs1'')]"
    by (simp add: ex_defs)
  have c: "fetched_commit example_client ''P1'' repoC = Inr (PyStr ''def'')"
    by (simp add: ex_defs)
  have d: "truthy (PyStr ''def'')" by simp
  have e: "export_repository example_client repoC (PyStr ''def'') ''vcs1'' = Inr (''C'', ''def'', ''vcs1'')"
    by (simp add: ex_defs)
  have f: "\<forall>d\<in>set [(''A'', ''abc'', ''vcs1''), (''C'', ''def'', ''vcs1'')].
             send_task example_services ''scan'' (model_dump_json example_services d) ''repos'' = None"
    by (simp add: example_services_def)
  from one_task_per_present_commit [OF a b c d e f] a c show ?thesis
    by (simp add: example_services_def)
qed

text \<open>
  C1 as stated fails in two ways. With the listing E, B, T the commit fetched for \<open>E\<close>
  is present and its descriptor is built, but the timeout of \<open>T\<close> ends the extraction:
  there is no returned task list for the descriptor of \<open>E\<close> to be in. And with a queue
  client that refuses the task of \<open>A\<close>, the extraction of project \<open>P1\<close> returns the
  descriptors of \<open>A\<close> and \<open>C\<close>, yet the dispatch ends after the call for \<open>A\<close>: no message is
  sent for \<open>C\<close>.
\<close>

theorem present_commit_without_task_or_message:
  "get_repos late_timeout_client ''P5'' = Inr [repoE, repoB, repoT]
   \<and> fetched_commit late_timeout_client ''P5'' repoE = Inr (PyStr ''xyz'')
   \<and> truthy (PyStr ''xyz'')
   \<and> export_repository late_timeout_client repoE (PyStr ''xyz'') ''vcs1'' = Inr (''E'', ''xyz'', ''vcs1'')
   \<and> fst (extract_project_information example_services late_timeout_client ''P5'' ''vcs1'')
       = Inl (Timeout ''read timed out'')
   \<and> fetched_commit example_client ''P1'' repoC = Inr (PyStr ''def'')
   \<and> fst (extract_project_information failing_services example_client ''P1'' ''vcs1'')
       = Inr [(''A'', ''abc'', ''vcs1''), (''C'', ''def'', ''vcs1'')]
   \<and> send_tasks_to_celery_queue failing_services ''scan'' ''repos''
         [(''A'', ''abc'', ''vcs1''), (''C'', ''def'', ''vcs1'')]
       = (Inl (OtherException ''broker unreachable''), [SendTask ''scan'' ''A,abc,vcs1'' ''repos''])"
  by (simp add: late_timeout_client_def failing_services_def ex_defs)

lemma post_in_send_backend:
  "\<exists>url hd. Post url hd \<lparr>project_key = pk, repositories = srs, vcs_instance_name = vin\<rparr>
      \<in> set (snd (send_repository_id_to_backend sv srs vin pk))"
proof -
  from send_backend_events [of sv srs vin pk]
  obtain url hd rest where
    "snd (send_repository_id_to_backend sv srs vin pk)
       = Post url hd \<lparr>project_key = pk, repositories = srs, vcs_instance_name = vin\<rparr> # rest"
    by blast
  then have "Post url hd \<lparr>project_key = pk, repositories = srs, vcs_instance_name = vin\<rparr>
      \<in> set (snd (send_repository_id_to_backend sv srs vin pk))" by simp
  then show ?thesis by blast
qed

text \<open>
  C2 (as amended). Take a run whose listing returns a record \<open>r\<close> (at any position),
  whose per-repository loop runs to its end and whose listed records all have an id. If
  the commit fetched for \<open>r\<close> is absent, the task list that the loop builds is made of
  the tasks of the entries before \<open>r\<close> and of those after it only, so no task is produced
  for \<open>r\<close>; that list is the one \<open>extract_project_information\<close> returns whenever it
  returns. The payload posted to the backend is nevertheless built from the whole raw
  listing: it has one entry per listed record, and the entry at the position of \<open>r\<close>
  holds the id and the name of \<open>r\<close>.
\<close>

theorem absent_commit_no_task_but_reported:
  assumes listing: "get_repos vc pk = Inr (pre @ r # post)"
      and loop: "fst (extract_loop vc pk vin (pre @ r # post) []) = Inr tasks"
      and ids: "extract_repository_id_and_name (pre @ r # post) = Inr srs"
      and fetched: "fetched_commit vc pk r = Inr c"
      and absent: "\<not> truthy c"
  shows "tasks = concat (map (new_tasks vc pk vin) pre) @ concat (map (new_tasks vc pk vin) post)
       \<and> (\<forall>ts. fst (extract_project_information sv vc pk vin) = Inr ts \<longrightarrow> ts = tasks)
       \<and> (\<exists>url hd i n.
             Post url hd \<lparr>project_key = pk, repositories = srs, vcs_instance_name = vin\<rparr>
               \<in> set (snd (extract_project_information sv vc pk vin))
             \<and> length srs = length (pre @ r # post)
             \<and> getitem r ''id'' = Inr i \<and> getitem r ''name'' = Inr n
             \<and> srs ! length pre = \<lparr>repo_id = py_str i, repo_name = n\<rparr>)"
proof -
  from extract_loop_tasks [OF loop] new_tasks_absent [OF fetched absent]
  have t: "tasks = concat (map (new_tasks vc pk vin) pre) @ concat (map (new_tasks vc pk vin) post)"
    by simp
  have same: "\<forall>ts. fst (extract_project_information sv vc pk vin) = Inr ts \<longrightarrow> ts = tasks"
  proof (intro allI impI)
    fix ts assume "fst (extract_project_information sv vc pk vin) = Inr ts"
    from extract_returns [OF listing this] loop show "ts = tasks" by simp
  qed
  from extract_trace [OF listing loop ids, of sv]
  obtain m1 m2 where
    "snd (extract_project_information sv vc pk vin) =
       [LogInfo m1, CallGetRepos pk, LogInfo m2]
         @ snd (extract_loop vc pk vin (pre @ r # post) [])
         @ snd (send_repository_id_to_backend sv srs vin pk)"
    by (metis snd_conv)
  with post_in_send_backend [of pk srs vin sv]
  obtain url hd where p: "Post url hd \<lparr>project_key = pk, repositories = srs, vcs_instance_name = vin\<rparr>
      \<in> set (snd (extract_project_information sv vc pk vin))" by auto
  from extract_ids_list_all2 [OF ids]
  have la: "list_all2 (\<lambda>r s. \<exists>i n. getitem r ''id'' = Inr i \<and> getitem r ''name'' = Inr n
                  \<and> s = \<lparr>repo_id = py_str i, repo_name = n\<rparr>) (pre @ r # post) srs" .
  from list_all2_lengthD [OF la] have len: "length srs = length (pre @ r # post)" by simp
  from la have "\<exists>i n. getitem ((pre @ r # post) ! length pre) ''id'' = Inr i
       \<and> getitem ((pre @ r # post) ! length pre) ''name'' = Inr n
       \<and> srs ! length pre = \<lparr>repo_id = py_str i, repo_name = n\<rparr>"
    by (rule list_all2_nthD) simp
  then obtain i n where "getitem r ''id'' = Inr i" "getitem r ''name'' = Inr n"
      "srs ! length pre = \<lparr>repo_id = py_str i, repo_name = n\<rparr>" by auto
  with t same p len show ?thesis by blast
qed

theorem absent_commit_no_task_but_reported_witness:
  "get_repos example_client ''P1'' = Inr ([repoA] @ repoB # [repoC])
   \<and> fetched_commit example_client ''P1'' repoB = Inr PyNone
   \<and> fst (extract_project_information example_services example_client ''P1'' ''vcs1'')
       = Inr [(''A'', ''abc'', ''vcs1''), (''C'', ''def'', ''vcs1'')]
   \<and> [(''A'', ''abc'', ''vcs1''), (''C'', ''def'', ''vcs1'')]
       = concat (map (new_tasks example_client ''P1'' ''vcs1'') [repoA])
           @ concat (map (new_tasks example_client ''P1'' ''vcs1'') [repoC])
   \<and> (\<exists>url hd i n.
         Post url hd \<lparr>project_key = ''P1'',
             repositories = [\<lparr>repo_id = ''1'', repo_name = PyStr ''A''\<rparr>,
                             \<lparr>repo_id = ''2'', repo_name = PyStr ''B''\<rparr>,
                             \<lparr>repo_id = ''c-3'', repo_name = PyStr ''C''\<rparr>],
             vcs_instance_name = ''vcs1''\<rparr>
           \<in> set (snd (extract_project_information example_services example_client ''P1'' ''vcs1''))
         \<and> getitem repoB ''id'' = Inr i \<and> getitem repoB ''name'' = Inr n
         \<and> [\<lparr>repo_id = ''1'', repo_name = PyStr ''A''\<rparr>,
             \<lparr>repo_id = ''2'', repo_name = PyStr ''B''\<rparr>,
             \<lparr>repo_id = ''c-3'', repo_name = PyStr ''C''\<rparr>] ! length [repoA]
             = \<lparr>repo_id = py_str i, repo_name = n\<rparr>)"
proof -
  have a: "get_repos example_client ''P1'' = Inr ([repoA] @ repoB # [repoC])"
    by (simp add: example_client_def)
  have l: "fst (extract_loop example_client ''P1'' ''vcs1'' ([repoA] @ repoB # [repoC]) [])
             = Inr [(''A'', ''abc'', ''vcs1''), (''C'', ''def'', ''vcs1'')]"
    by (simp add: ex_defs)
  have i: "extract_repository_id_and_name ([repoA] @ repoB # [repoC])
             = Inr [\<lparr>repo_id = ''1'', repo_name = PyStr ''A''\<rparr>,
                    \<lparr>repo_id = ''2'', repo_name = PyStr ''B''\<rparr>,
                    \<lparr>repo_id = ''c-3'', repo_name = PyStr ''C''\<rparr>]"
    by (simp add: ex_defs str_int_def str_nat.simps digit_char_def)
  have b: "fst (extract_project_information example_services example_client ''P1'' ''vcs1'')
             = Inr [(''A'', ''abc'', ''vcs1''), (''C'', ''def'', ''vcs1'')]"
    by (simp add: ex_defs)
  have c: "fetched_commit example_client ''P1'' repoB = Inr PyNone"
    by (simp add: ex_defs)
  have d: "\<not> truthy PyNone" by simp
  from absent_commit_no_task_but_reported [OF a l i c d, where sv = example_services] a b c
  show ?thesis by blast
qed

text \<open>
  C2 as stated fails: with the listing E, B, T the commit fetched for \<open>B\<close> is absent,
  the commit fetch of \<open>T\<close> then raises a timeout that the loop does not catch, and the
  extraction ends without any post: \<open>B\<close> appears in no payload.
\<close>

theorem absent_commit_unreported_when_loop_aborts:
  "get_repos late_timeout_client ''P5'' = Inr [repoE, repoB, repoT]
   \<and> fetched_commit late_timeout_client ''P5'' repoB = Inr PyNone
   \<and> \<not> truthy PyNone
   \<and> fst (extract_project_information example_services late_timeout_client ''P5'' ''vcs1'')
       = Inl (Timeout ''read timed out'')
   \<and> filter is_Post (snd (extract_project_information example_services late_timeout_client ''P5'' ''vcs1''))
       = []"
  by (simp add: late_timeout_client_def ex_defs)

lemma process_repository_fetch_fails:
  assumes "getitem r ''name'' = Inr n" and "get_latest_commit vc pk n = Inl e"
  shows "process_repository vc pk vin r acc =
           (if is_HTTPError e
            then (Inr acc,
                  [LogInfo (''Fetching latest commit for repository: '' @ repo_path pk n),
                   CallGetLatestCommit pk n,
                   LogError (''Error while processing repository '' @ repo_path pk n
                             @ '': Unable to obtain the repository'' @ apos
                             @ ''s latest commit: '' @ exn_str e)])
            else (Inl e,
                  [LogInfo (''Fetching latest commit for repository: '' @ repo_path pk n),
                   CallGetLatestCommit pk n]))"
  using assms by (simp add: process_repository_def try_repository_def)

text \<open>
  C3 (as amended). Take a listed record \<open>r\<close> that the loop reaches with the task list
  \<open>acc\<close>, and whose commit fetch raises \<open>e\<close>. If \<open>e\<close> is an HTTPError of the requests
  library, the loop logs an error for \<open>r\<close>, leaves the task list as it was, and processes
  every record after \<open>r\<close> exactly as it would have from \<open>acc\<close>. If \<open>e\<close> is any other
  exception (a timeout or a connection error among them), the loop stops at \<open>r\<close> and
  \<open>e\<close> propagates.
\<close>

theorem http_error_skips_one_repository:
  assumes before: "fst (extract_loop vc pk vin pre []) = Inr acc"
      and name: "getitem r ''name'' = Inr n"
      and fails: "get_latest_commit vc pk n = Inl e"
  shows "(is_HTTPError e \<longrightarrow>
            fst (extract_loop vc pk vin (pre @ r # post) []) = fst (extract_loop vc pk vin post acc)
          \<and> (\<exists>m1 m2. snd (extract_loop vc pk vin (pre @ r # post) []) =
                snd (extract_loop vc pk vin pre [])
                  @ [LogInfo m1, CallGetLatestCommit pk n, LogError m2]
                  @ snd (extract_loop vc pk vin post acc)))
       \<and> (\<not> is_HTTPError e \<longrightarrow>
            fst (extract_loop vc pk vin (pre @ r # post) []) = Inl e
          \<and> (\<exists>m1. snd (extract_loop vc pk vin (pre @ r # post) []) =
                snd (extract_loop vc pk vin pre []) @ [LogInfo m1, CallGetLatestCommit pk n]))"
proof -
  obtain ev where p: "extract_loop vc pk vin pre [] = (Inr acc, ev)"
    using before by (cases "extract_loop vc pk vin pre []") simp
  obtain res ev' where q: "extract_loop vc pk vin post acc = (res, ev')"
    by (cases "extract_loop vc pk vin post acc")
  show ?thesis
    by (simp add: extract_loop_append p q process_repository_fetch_fails [OF name fails])
qed

theorem http_error_skips_one_repository_witness:
  "fst (extract_loop example_client ''P3'' ''vcs1'' ([] @ repoD # [repoE]) [])
     = Inr [(''E'', ''xyz'', ''vcs1'')]
   \<and> fst (extract_loop example_client ''P4'' ''vcs1'' ([] @ repoT # [repoE]) [])
     = Inl (Timeout ''read timed out'')"
proof -
  have a: "fst (extract_loop example_client ''P3'' ''vcs1'' [] []) = Inr []" by simp
  have b: "getitem repoD ''name'' = Inr (PyStr ''D'')" by (simp add: ex_defs)
  have c: "get_latest_commit example_client ''P3'' (PyStr ''D'') = Inl (HTTPError ''404 Client Error'')"
    by (simp add: ex_defs)
  have a': "fst (extract_loop example_client ''P4'' ''vcs1'' [] []) = Inr []" by simp
  have b': "getitem repoT ''name'' = Inr (PyStr ''T'')" by (simp add: ex_defs)
  have c': "get_latest_commit example_client ''P4'' (PyStr ''T'') = Inl (Timeout ''read timed out'')"
    by (simp add: ex_defs)
  have d: "fst (extract_loop example_client ''P3'' ''vcs1'' [repoE] []) = Inr [(''E'', ''xyz'', ''vcs1'')]"
    by (simp add: ex_defs)
  from http_error_skips_one_repository [OF a b c, of "[repoE]"]
       http_error_skips_one_repository [OF a' b' c', of "[repoE]"] d
  show ?thesis by simp
qed

text \<open>
  C3 as stated fails: in project \<open>P4\<close> the commit fetch of \<open>T\<close> raises a timeout, which is
  a transport error but not an HTTPError. The extraction ends with that exception and
  the commit of \<open>E\<close>, listed after \<open>T\<close>, is never fetched.
\<close>

theorem timeout_aborts_the_batch:
  "get_repos example_client ''P4'' = Inr [repoT, repoE]
   \<and> fetched_commit example_client ''P4'' repoT = Inl (Timeout ''read timed out'')
   \<and> is_RequestException (Timeout ''read timed out'')
   \<and> fst (extract_project_information example_services example_client ''P4'' ''vcs1'')
       = Inl (Timeout ''read timed out'')
   \<and> CallGetLatestCommit ''P4'' (PyStr ''E'')
       \<notin> set (snd (extract_project_information example_services example_client ''P4'' ''vcs1''))"
  by (simp add: ex_defs)

text \<open>
  C5 (as amended). \<open>send_tasks_to_celery_queue\<close> calls \<open>send_task\<close> for the tasks one at a
  time, in list order, with no exception handler. When every call succeeds, there is
  exactly one call per task and the function returns. When the call for a task \<open>t\<close>
  raises \<open>e\<close> after the calls for the tasks before it succeeded, \<open>e\<close> propagates: the
  calls made are those for the tasks up to and including \<open>t\<close>, and no call is made for
  a task after \<open>t\<close>.
\<close>

theorem dispatch_stops_at_first_failure:
  "((\<forall>d\<in>set ts. send_task sv tn (model_dump_json sv d) qn = None) \<longrightarrow>
      send_tasks_to_celery_queue sv tn qn ts
        = (Inr (), map (\<lambda>d. SendTask tn (model_dump_json sv d) qn) ts))
   \<and> ((\<forall>d\<in>set pre. send_task sv tn (model_dump_json sv d) qn = None)
        \<and> send_task sv tn (model_dump_json sv t) qn = Some e \<longrightarrow>
      send_tasks_to_celery_queue sv tn qn (pre @ t # post)
        = (Inl e, map (\<lambda>d. SendTask tn (model_dump_json sv d) qn) (pre @ [t])))"
  using send_tasks_all_ok [of ts sv tn qn] send_tasks_first_failure [of pre sv tn qn t e post]
  by blast

theorem dispatch_stops_at_first_failure_witness:
  "send_tasks_to_celery_queue example_services ''scan'' ''repos''
       [(''A'', ''abc'', ''vcs1''), (''C'', ''def'', ''vcs1'')]
     = (Inr (), [SendTask ''scan'' ''A,abc,vcs1'' ''repos'', SendTask ''scan'' ''C,def,vcs1'' ''repos''])
   \<and> send_tasks_to_celery_queue failing_services ''scan'' ''repos''
       ([(''C'', ''def'', ''vcs1'')] @ (''A'', ''abc'', ''vcs1'') # [(''E'', ''xyz'', ''vcs1'')])
     = (Inl (OtherException ''broker unreachable''),
        [SendTask ''scan'' ''C,def,vcs1'' ''repos'', SendTask ''scan'' ''A,abc,vcs1'' ''repos''])"
proof -
  have a: "\<forall>d\<in>set [(''A'', ''abc'', ''vcs1''), (''C'', ''def'', ''vcs1'')].
             send_task example_services ''scan'' (model_dump_json example_services d) ''repos'' = None"
    by (simp add: example_services_def)
  have b: "\<forall>d\<in>set [(''C'', ''def'', ''vcs1'')].
             send_task failing_services ''scan'' (model_dump_json failing_services d) ''repos'' = None"
    by (simp add: failing_services_def example_services_def)
  have c: "send_task failing_services ''scan'' (model_dump_json failing_services (''A'', ''abc'', ''vcs1'')) ''repos''
             = Some (OtherException ''broker unreachable'')"
    by (simp add: failing_services_def example_services_def)
  have d: "map (\<lambda>d. SendTask ''scan'' (model_dump_json example_services d) ''repos'')
             [(''A'', ''abc'', ''vcs1''), (''C'', ''def'', ''vcs1'')]
           = [SendTask ''scan'' ''A,abc,vcs1'' ''repos'', SendTask ''scan'' ''C,def,vcs1'' ''repos'']"
    by (simp add: example_services_def)
  have e: "map (\<lambda>d. SendTask ''scan'' (model_dump_json failing_services d) ''repos'')
             ([(''C'', ''def'', ''vcs1'')] @ [(''A'', ''abc'', ''vcs1'')])
           = [SendTask ''scan'' ''C,def,vcs1'' ''repos'', SendTask ''scan'' ''A,abc,vcs1'' ''repos'']"
    by (simp add: failing_services_def example_services_def)
  from dispatch_stops_at_first_failure
         [of "[(''A'', ''abc'', ''vcs1''), (''C'', ''def'', ''vcs1'')]" example_services "''scan''" "''repos''"
             "[]" "(''A'', ''abc'', ''vcs1'')" "OtherException ''x''" "[]"] a
  have f: "send_tasks_to_celery_queue example_services ''scan'' ''repos''
             [(''A'', ''abc'', ''vcs1''), (''C'', ''def'', ''vcs1'')]
           = (Inr (), map (\<lambda>d. SendTask ''scan'' (model_dump_json example_services d) ''repos'')
                        [(''A'', ''abc'', ''vcs1''), (''C'', ''def'', ''vcs1'')])"
    by blast
  from dispatch_stops_at_first_failure
         [of "[]" failing_services "''scan''" "''repos''"
             "[(''C'', ''def'', ''vcs1'')]" "(''A'', ''abc'', ''vcs1'')" "OtherException ''broker unreachable''"
             "[(''E'', ''xyz'', ''vcs1'')]"] b c
  have g: "send_tasks_to_celery_queue failing_services ''scan'' ''repos''
             ([(''C'', ''def'', ''vcs1'')] @ (''A'', ''abc'', ''vcs1'') # [(''E'', ''xyz'', ''vcs1'')])
           = (Inl (OtherException ''broker unreachable''),
              map (\<lambda>d. SendTask ''scan'' (model_dump_json failing_services d) ''repos'')
                ([(''C'', ''def'', ''vcs1'')] @ [(''A'', ''abc'', ''vcs1'')]))"
    by blast
  from f g d e show ?thesis by simp
qed

text \<open>
  C5 as stated fails: with a queue client that refuses the task of \<open>A\<close>, dispatching
  the tasks of \<open>A\<close> and \<open>C\<close> ends with the exception after the single call for \<open>A\<close>; the
  task of \<open>C\<close> is never attempted.
\<close>

theorem enqueue_failure_ends_dispatch:
  "send_task failing_services ''scan''
       (model_dump_json failing_services (''A'', ''abc'', ''vcs1'')) ''repos''
     = Some (OtherException ''broker unreachable'')
   \<and> send_tasks_to_celery_queue failing_services ''scan'' ''repos''
       [(''A'', ''abc'', ''vcs1''), (''C'', ''def'', ''vcs1'')]
     = (Inl (OtherException ''broker unreachable''), [SendTask ''scan'' ''A,abc,vcs1'' ''repos''])
   \<and> SendTask ''scan'' ''C,def,vcs1'' ''repos''
       \<notin> set (snd (send_tasks_to_celery_queue failing_services ''scan'' ''repos''
                     [(''A'', ''abc'', ''vcs1''), (''C'', ''def'', ''vcs1'')]))"
  by (simp add: failing_services_def example_services_def)

lemma single_post:
  assumes "ev = before @ Post u h b # after"
      and "\<forall>x\<in>set before. \<not> is_Post x"
      and "\<forall>x\<in>set after. \<not> is_Post x"
  shows "filter is_Post ev = [Post u h b]"
  using assms by (simp add: filter_empty_conv)

lemma collect_unfold:
  assumes "load_vcs_instances_into_map sv = Inr m"
      and "map_of m vin = Some inst"
      and "create_client_from_vcs_instance sv inst = Inr vc"
  shows "\<exists>m0. collect_repositories sv pk vin =
           (case extract_project_information sv vc pk vin of
              (Inl e, ev1) \<Rightarrow> (Inl e, LogInfo m0 # ev1)
            | (Inr project_tasks, ev1) \<Rightarrow>
                (fst (send_tasks_to_celery_queue sv (SECRET_SCANNER_TASK_NAME sv) (REPOSITORY_QUEUE sv) project_tasks),
                 LogInfo m0 # ev1
                   @ snd (send_tasks_to_celery_queue sv (SECRET_SCANNER_TASK_NAME sv) (REPOSITORY_QUEUE sv) project_tasks)))"
  using assms
  by (auto simp: collect_repositories_def Let_def split: prod.splits sum.splits)

lemma one_report_when_loop_completes:
  assumes load: "load_vcs_instances_into_map sv = Inr m"
      and inst: "map_of m vin = Some inst"
      and client: "create_client_from_vcs_instance sv inst = Inr vc"
      and listing: "get_repos vc pk = Inr repos"
      and loop: "fst (extract_loop vc pk vin repos []) = Inr tasks"
      and ids: "extract_repository_id_and_name repos = Inr srs"
  shows "\<exists>before url hd after.
           snd (collect_repositories sv pk vin)
             = before @ Post url hd \<lparr>project_key = pk, repositories = srs, vcs_instance_name = vin\<rparr> # after
         \<and> filter is_Post (snd (collect_repositories sv pk vin))
             = [Post url hd \<lparr>project_key = pk, repositories = srs, vcs_instance_name = vin\<rparr>]
         \<and> (\<forall>x\<in>set after. \<not> is_connector_call x)"
proof -
  let ?send = "send_repository_id_to_backend sv srs vin pk"
  let ?lp = "extract_loop vc pk vin repos []"
  from extract_trace [OF listing loop ids, of sv]
  obtain m1 m2 where ex: "extract_project_information sv vc pk vin =
      (case fst ?send of Inl e \<Rightarrow> Inl e | Inr u \<Rightarrow> Inr tasks,
       [LogInfo m1, CallGetRepos pk, LogInfo m2] @ snd ?lp @ snd ?send)" by blast
  from send_backend_events [of sv srs vin pk]
  obtain url hd rest where sd: "snd ?send
       = Post url hd \<lparr>project_key = pk, repositories = srs, vcs_instance_name = vin\<rparr> # rest"
    and rest: "\<forall>x\<in>set rest. \<not> is_Post x \<and> \<not> is_connector_call x \<and> \<not> is_SendTask x"
    by blast
  from collect_unfold [OF load inst client, of pk]
  obtain m0 where co: "collect_repositories sv pk vin =
           (case extract_project_information sv vc pk vin of
              (Inl e, ev1) \<Rightarrow> (Inl e, LogInfo m0 # ev1)
            | (Inr project_tasks, ev1) \<Rightarrow>
                (fst (send_tasks_to_celery_queue sv (SECRET_SCANNER_TASK_NAME sv) (REPOSITORY_QUEUE sv) project_tasks),
                 LogInfo m0 # ev1
                   @ snd (send_tasks_to_celery_queue sv (SECRET_SCANNER_TASK_NAME sv) (REPOSITORY_QUEUE sv) project_tasks)))"
    by blast
  let ?before = "[LogInfo m0, LogInfo m1, CallGetRepos pk, LogInfo m2] @ snd ?lp"
  let ?q = "snd (send_tasks_to_celery_queue sv (SECRET_SCANNER_TASK_NAME sv) (REPOSITORY_QUEUE sv) tasks)"
  have bf: "\<forall>x\<in>set ?before. \<not> is_Post x"
    using extract_loop_no_post [of _ vc pk vin repos "[]"] by auto
  have q: "\<forall>x\<in>set ?q. \<not> is_Post x \<and> \<not> is_connector_call x"
  proof
    fix x assume "x \<in> set ?q"
    then have "is_SendTask x" by (rule send_tasks_events)
    then show "\<not> is_Post x \<and> \<not> is_connector_call x" by (cases x) simp_all
  qed
  show ?thesis
  proof (cases "fst ?send")
    case (Inl e)
    with ex co sd have "snd (collect_repositories sv pk vin)
        = ?before @ Post url hd \<lparr>project_key = pk, repositories = srs, vcs_instance_name = vin\<rparr> # rest"
      by simp
    then have eq: "snd (collect_repositories sv pk vin)
        = ?before @ Post url hd \<lparr>project_key = pk, repositories = srs, vcs_instance_name = vin\<rparr> # rest" .
    from rest have "\<forall>x\<in>set rest. \<not> is_Post x" by blast
    from single_post [OF eq bf this] eq rest show ?thesis by blast
  next
    case (Inr u)
    with ex co sd have "snd (collect_repositories sv pk vin)
        = ?before @ Post url hd \<lparr>project_key = pk, repositories = srs, vcs_instance_name = vin\<rparr> # (rest @ ?q)"
      by simp
    then have eq: "snd (collect_repositories sv pk vin)
        = ?before @ Post url hd \<lparr>project_key = pk, repositories = srs, vcs_instance_name = vin\<rparr> # (rest @ ?q)" .
    from rest q have np: "\<forall>x\<in>set (rest @ ?q). \<not> is_Post x" by auto
    from rest q have nc: "\<forall>x\<in>set (rest @ ?q). \<not> is_connector_call x" by auto
    from single_post [OF eq bf np] eq nc show ?thesis by blast
  qed
qed

lemma extract_loop_failure:
  assumes "get_repos vc pk = Inr repos"
      and "fst (extract_loop vc pk vin repos []) = Inl e"
  shows "\<exists>m1 m2. extract_project_information sv vc pk vin =
           (Inl e, [LogInfo m1, CallGetRepos pk, LogInfo m2] @ snd (extract_loop vc pk vin repos []))"
  using assms
  by (auto simp: extract_project_information_def Let_def split: prod.splits sum.splits)

lemma no_report_when_loop_fails:
  assumes load: "load_vcs_instances_into_map sv = Inr m"
      and inst: "map_of m vin = Some inst"
      and client: "create_client_from_vcs_instance sv inst = Inr vc"
      and listing: "get_repos vc pk = Inr repos"
      and loop: "fst (extract_loop vc pk vin repos []) = Inl e"
  shows "fst (collect_repositories sv pk vin) = Inl e
       \<and> filter is_Post (snd (collect_repositories sv pk vin)) = []"
proof -
  from extract_loop_failure [OF listing loop, of sv]
  obtain m1 m2 where ex: "extract_project_information sv vc pk vin =
      (Inl e, [LogInfo m1, CallGetRepos pk, LogInfo m2] @ snd (extract_loop vc pk vin repos []))"
    by blast
  from collect_unfold [OF load inst client, of pk] ex
  obtain m0 where co: "collect_repositories sv pk vin =
      (Inl e, LogInfo m0 # [LogInfo m1, CallGetRepos pk, LogInfo m2] @ snd (extract_loop vc pk vin repos []))"
    by auto
  have "\<forall>x\<in>set (snd (extract_loop vc pk vin repos [])). \<not> is_Post x"
    using extract_loop_no_post [of _ vc pk vin repos "[]"] by blast
  then have "filter is_Post (snd (extract_loop vc pk vin repos [])) = []"
    by (simp add: filter_empty_conv)
  with co show ?thesis by simp
qed

text \<open>
  C4 (as amended). Take a run that reaches the listing call and whose listing succeeds.
  If its per-repository loop runs to its end (every commit fetch and export either
  returns or raises an HTTPError) and its listed records all have an id, the run makes
  exactly one post of the ActiveRepositories report, whatever the task list is (empty
  included) and whether or not the post or a later enqueue fails, and no call on the
  connector comes after that post, so the report is sent after the loop. If its loop is
  ended by an exception that it does not catch, the run ends with that exception and
  makes no post.
\<close>

theorem one_report_after_the_loop:
  assumes load: "load_vcs_instances_into_map sv = Inr m"
      and inst: "map_of m vin = Some inst"
      and client: "create_client_from_vcs_instance sv inst = Inr vc"
      and listing: "get_repos vc pk = Inr repos"
  shows "(\<forall>tasks srs.
            fst (extract_loop vc pk vin repos []) = Inr tasks
            \<and> extract_repository_id_and_name repos = Inr srs \<longrightarrow>
            (\<exists>before url hd after.
               snd (collect_repositories sv pk vin)
                 = before @ Post url hd \<lparr>project_key = pk, repositories = srs, vcs_instance_name = vin\<rparr> # after
             \<and> filter is_Post (snd (collect_repositories sv pk vin))
                 = [Post url hd \<lparr>project_key = pk, repositories = srs, vcs_instance_name = vin\<rparr>]
             \<and> (\<forall>x\<in>set after. \<not> is_connector_call x)))
       \<and> (\<forall>e. fst (extract_loop vc pk vin repos []) = Inl e \<longrightarrow>
            fst (collect_repositories sv pk vin) = Inl e
            \<and> filter is_Post (snd (collect_repositories sv pk vin)) = [])"
  using one_report_when_loop_completes [OF load inst client listing]
        no_report_when_loop_fails [OF load inst client listing]
  by blast

theorem one_report_after_the_loop_witness:
  "fst (extract_loop example_client ''P3'' ''vcs1'' [repoD, repoE] []) = Inr [(''E'', ''xyz'', ''vcs1'')]
   \<and> length (filter is_Post (snd (collect_repositories example_services ''P3'' ''vcs1''))) = 1
   \<and> (\<exists>before url hd after.
         snd (collect_repositories example_services ''P3'' ''vcs1'')
           = before @ Post url hd \<lparr>project_key = ''P3'',
                 repositories = [\<lparr>repo_id = ''4'', repo_name = PyStr ''D''\<rparr>,
                                 \<lparr>repo_id = ''5'', repo_name = PyStr ''E''\<rparr>],
                 vcs_instance_name = ''vcs1''\<rparr> # after
       \<and> filter is_Post (snd (collect_repositories example_services ''P3'' ''vcs1''))
           = [Post url hd \<lparr>project_key = ''P3'',
                 repositories = [\<lparr>repo_id = ''4'', repo_name = PyStr ''D''\<rparr>,
                                 \<lparr>repo_id = ''5'', repo_name = PyStr ''E''\<rparr>],
                 vcs_instance_name = ''vcs1''\<rparr>]
       \<and> (\<forall>x\<in>set after. \<not> is_connector_call x))
   \<and> fst (extract_loop late_timeout_client ''P5'' ''vcs1'' [repoE, repoB, repoT] [])
       = Inl (Timeout ''read timed out'')
   \<and> fst (collect_repositories
             (example_services\<lparr>create_client_from_vcs_instance := (\<lambda>c. Inr late_timeout_client)\<rparr>)
             ''P5'' ''vcs1'')
       = Inl (Timeout ''read timed out'')
   \<and> filter is_Post (snd (collect_repositories
             (example_services\<lparr>create_client_from_vcs_instance := (\<lambda>c. Inr late_timeout_client)\<rparr>)
             ''P5'' ''vcs1'')) = []"
proof -
  let ?sv = "example_services\<lparr>create_client_from_vcs_instance := (\<lambda>c. Inr late_timeout_client)\<rparr>"
  have a: "load_vcs_instances_into_map example_services = Inr [(''vcs1'', ())]"
    by (simp add: example_services_def)
  have b: "map_of [(''vcs1'', ())] ''vcs1'' = Some ()" by simp
  have c: "create_client_from_vcs_instance example_services () = Inr example_client"
    by (simp add: example_services_def)
  have d: "get_repos example_client ''P3'' = Inr [repoD, repoE]"
    by (simp add: example_client_def)
  have e: "fst (extract_loop example_client ''P3'' ''vcs1'' [repoD, repoE] []) = Inr [(''E'', ''xyz'', ''vcs1'')]"
    by (simp add: ex_defs)
  have f: "extract_repository_id_and_name [repoD, repoE]
             = Inr [\<lparr>repo_id = ''4'', repo_name = PyStr ''D''\<rparr>,
                    \<lparr>repo_id = ''5'', repo_name = PyStr ''E''\<rparr>]"
    by (simp add: ex_defs str_int_def str_nat.simps digit_char_def)
  have g: "length (filter is_Post (snd (collect_repositories example_services ''P3'' ''vcs1''))) = 1"
    by (simp add: ex_defs)
  have a': "load_vcs_instances_into_map ?sv = Inr [(''vcs1'', ())]"
    by (simp add: example_services_def)
  have c': "create_client_from_vcs_instance ?sv () = Inr late_timeout_client"
    by simp
  have d': "get_repos late_timeout_client ''P5'' = Inr [repoE, repoB, repoT]"
    by (simp add: late_timeout_client_def)
  have e': "fst (extract_loop late_timeout_client ''P5'' ''vcs1'' [repoE, repoB, repoT] [])
              = Inl (Timeout ''read timed out'')"
    by (simp add: late_timeout_client_def ex_defs)
  from one_report_after_the_loop [OF a b c d] e f
  have h: "\<exists>before url hd after.
         snd (collect_repositories example_services ''P3'' ''vcs1'')
           = before @ Post url hd \<lparr>project_key = ''P3'',
                 repositories = [\<lparr>repo_id = ''4'', repo_name = PyStr ''D''\<rparr>,
                                 \<lparr>repo_id = ''5'', repo_name = PyStr ''E''\<rparr>],
                 vcs_instance_name = ''vcs1''\<rparr> # after
       \<and> filter is_Post (snd (collect_repositories example_services ''P3'' ''vcs1''))
           = [Post url hd \<lparr>project_key = ''P3'',
                 repositories = [\<lparr>repo_id = ''4'', repo_name = PyStr ''D''\<rparr>,
                                 \<lparr>repo_id = ''5'', repo_name = PyStr ''E''\<rparr>],
                 vcs_instance_name = ''vcs1''\<rparr>]
       \<and> (\<forall>x\<in>set after. \<not> is_connector_call x)"
    by blast
  from one_report_after_the_loop [OF a' b c' d'] e'
  have i: "fst (collect_repositories ?sv ''P5'' ''vcs1'') = Inl (Timeout ''read timed out'')
         \<and> filter is_Post (snd (collect_repositories ?sv ''P5'' ''vcs1'')) = []"
    by blast
  from e g h e' i show ?thesis by blast
qed

text \<open>
  C4 as stated fails: in project \<open>P4\<close> the listing call succeeds, the commit fetch of
  \<open>T\<close> then raises a timeout that the loop does not catch, and the run ends without
  any post to the backend.
\<close>

theorem no_report_when_the_loop_aborts:
  "get_repos example_client ''P4'' = Inr [repoT, repoE]
   \<and> fst (collect_repositories example_services ''P4'' ''vcs1'') = Inl (Timeout ''read timed out'')
   \<and> filter is_Post (snd (collect_repositories example_services ''P4'' ''vcs1'')) = []"
  by (simp add: ex_defs)

text \<open>
  C6. Take a run that reaches the listing call. If the listing call raises \<open>e\<close>, then
  \<open>extract_project_information\<close> raises \<open>e\<close>, the whole run ends with \<open>e\<close>, and the run
  makes no \<open>send_task\<close> call and no post to the backend.
\<close>

theorem listing_failure_aborts_the_run:
  assumes load: "load_vcs_instances_into_map sv = Inr m"
      and inst: "map_of m vin = Some inst"
      and client: "create_client_from_vcs_instance sv inst = Inr vc"
      and listing: "get_repos vc pk = Inl e"
  shows "fst (extract_project_information sv vc pk vin) = Inl e
       \<and> fst (collect_repositories sv pk vin) = Inl e
       \<and> filter is_SendTask (snd (collect_repositories sv pk vin)) = []
       \<and> filter is_Post (snd (collect_repositories sv pk vin)) = []"
  using assms
  by (simp add: collect_repositories_def extract_project_information_def Let_def)

theorem listing_failure_aborts_the_run_witness:
  "get_repos example_client ''P2'' = Inl (ConnectionError ''connection refused'')
   \<and> fst (extract_project_information example_services example_client ''P2'' ''vcs1'')
       = Inl (ConnectionError ''connection refused'')
   \<and> fst (collect_repositories example_services ''P2'' ''vcs1'')
       = Inl (ConnectionError ''connection refused'')
   \<and> filter is_SendTask (snd (collect_repositories example_services ''P2'' ''vcs1'')) = []
   \<and> filter is_Post (snd (collect_repositories example_services ''P2'' ''vcs1'')) = []"
proof -
  have a: "load_vcs_instances_into_map example_services = Inr [(''vcs1'', ())]"
    by (simp add: example_services_def)
  have b: "map_of [(''vcs1'', ())] ''vcs1'' = Some ()" by simp
  have c: "create_client_from_vcs_instance example_services () = Inr example_client"
    by (simp add: example_services_def)
  have d: "get_repos example_client ''P2'' = Inl (ConnectionError ''connection refused'')"
    by (simp add: example_client_def)
  from listing_failure_aborts_the_run [OF a b c d] d show ?thesis by simp
qed

lemma raise_for_status_HTTPError:
  "raise_for_status url resp = Some e \<Longrightarrow> is_HTTPError e"
  by (auto simp: raise_for_status_def split: if_splits)

lemma is_HTTPError_RequestException: "is_HTTPError e \<Longrightarrow> is_RequestException e"
  by (cases e) simp_all

lemma post_and_check_failure:
  assumes "\<forall>u h b e. requests_post sv u h b = Inl e \<longrightarrow> is_RequestException e"
      and "fst (post_and_check sv url hs body) = Inl e"
  shows "is_RequestException e"
  using assms raise_for_status_HTTPError is_HTTPError_RequestException
  by (fastforce simp: post_and_check_def split: sum.splits option.splits)

text \<open>
  C7. Suppose the post to the backend can fail only with exceptions of the requests
  library (transport and HTTP errors: \<open>RequestException\<close> and its subclasses); the
  response may have any status. Then \<open>send_repository_id_to_backend\<close> makes the post,
  ends with a log entry and returns without raising; and an extraction whose listing
  succeeded, whose loop ran to its end and whose records have ids returns its task
  list, so the run goes on to dispatch.
\<close>

theorem report_failure_never_propagates:
  assumes transport: "\<forall>u h b e. requests_post sv u h b = Inl e \<longrightarrow> is_RequestException e"
  shows "fst (send_repository_id_to_backend sv srs vin pk) = Inr ()
       \<and> (\<exists>url hd m. snd (send_repository_id_to_backend sv srs vin pk)
             = [Post url hd \<lparr>project_key = pk, repositories = srs, vcs_instance_name = vin\<rparr>, LogInfo m])
       \<and> (get_repos vc pk = Inr repos \<and> fst (extract_loop vc pk vin repos []) = Inr tasks
            \<and> extract_repository_id_and_name repos = Inr srs
          \<longrightarrow> fst (extract_project_information sv vc pk vin) = Inr tasks)"
proof -
  let ?url = "''http://'' @ RESC_API_NO_AUTH_SERVICE_HOST sv @ '':'' @ RESC_API_NO_AUTH_SERVICE_PORT sv
                @ ''/resc/v1/repositories/active''"
  let ?hd = "[(''Content-Type'', ''application/json'')]"
  let ?body = "\<lparr>project_key = pk, repositories = srs, vcs_instance_name = vin\<rparr>"
  obtain res ev where pc: "post_and_check sv ?url ?hd ?body = (res, ev)"
    by (cases "post_and_check sv ?url ?hd ?body")
  have ret: "fst (send_repository_id_to_backend sv srs vin pk) = Inr ()"
  proof (cases res)
    case (Inl e)
    with pc have "fst (post_and_check sv ?url ?hd ?body) = Inl e" by simp
    from post_and_check_failure [OF transport this] have "is_RequestException e" .
    with pc Inl show ?thesis by (simp add: send_repository_id_to_backend_def)
  next
    case (Inr u)
    with pc show ?thesis by (simp add: send_repository_id_to_backend_def)
  qed
  have tr: "\<exists>url hd m. snd (send_repository_id_to_backend sv srs vin pk) = [Post url hd ?body, LogInfo m]"
    using ret
    by (auto simp: send_repository_id_to_backend_def post_and_check_def Let_def
        split: sum.splits option.splits if_splits)
  have run: "get_repos vc pk = Inr repos \<and> fst (extract_loop vc pk vin repos []) = Inr tasks
            \<and> extract_repository_id_and_name repos = Inr srs
          \<longrightarrow> fst (extract_project_information sv vc pk vin) = Inr tasks"
  proof
    assume h: "get_repos vc pk = Inr repos \<and> fst (extract_loop vc pk vin repos []) = Inr tasks
            \<and> extract_repository_id_and_name repos = Inr srs"
    from extract_trace [of vc pk repos vin tasks srs sv] h ret
    show "fst (extract_project_information sv vc pk vin) = Inr tasks" by auto
  qed
  from ret tr run show ?thesis by blast
qed


theorem report_failure_never_propagates_witness:
  "requests_post failing_services ''u'' [] \<lparr>project_key = ''P1'', repositories = [], vcs_instance_name = ''vcs1''\<rparr>
     = Inl (ConnectionError ''connection refused'')
   \<and> fst (send_repository_id_to_backend failing_services [] ''vcs1'' ''P1'') = Inr ()
   \<and> snd (send_repository_id_to_backend failing_services [] ''vcs1'' ''P1'')
       = [Post ''http://backend:8000/resc/v1/repositories/active'' [(''Content-Type'', ''application/json'')]
            \<lparr>project_key = ''P1'', repositories = [], vcs_instance_name = ''vcs1''\<rparr>,
          LogInfo ''Error updating repository in project P1: connection refused'']
   \<and> fst (send_repository_id_to_backend failing_services [] ''vcs1'' ''P3'') = Inr ()
   \<and> snd (send_repository_id_to_backend failing_services [] ''vcs1'' ''P3'')
       = [Post ''http://backend:8000/resc/v1/repositories/active'' [(''Content-Type'', ''application/json'')]
            \<lparr>project_key = ''P3'', repositories = [], vcs_instance_name = ''vcs1''\<rparr>,
          LogInfo ''Error updating repository in project P3: 503 Server Error: Service Unavailable for url: http://backend:8000/resc/v1/repositories/active'']
   \<and> fst (extract_project_information failing_services example_client ''P3'' ''vcs1'')
       = Inr [(''E'', ''xyz'', ''vcs1'')]"
proof -
  have h: "\<forall>u h b e. requests_post failing_services u h b = Inl e \<longrightarrow> is_RequestException e"
    by (auto simp: failing_services_def example_services_def split: if_splits)
  have a: "requests_post failing_services ''u'' [] \<lparr>project_key = ''P1'', repositories = [], vcs_instance_name = ''vcs1''\<rparr>
     = Inl (ConnectionError ''connection refused'')"
    by (simp add: failing_services_def example_services_def)
  from report_failure_never_propagates [OF h, of "[]" "''vcs1''" "''P1''"]
  have b: "fst (send_repository_id_to_backend failing_services [] ''vcs1'' ''P1'') = Inr ()"
    by blast
  from report_failure_never_propagates [OF h, of "[]" "''vcs1''" "''P3''"]
  have c: "fst (send_repository_id_to_backend failing_services [] ''vcs1'' ''P3'') = Inr ()"
    by blast
  have d: "snd (send_repository_id_to_backend failing_services [] ''vcs1'' ''P1'')
       = [Post ''http://backend:8000/resc/v1/repositories/active'' [(''Content-Type'', ''application/json'')]
            \<lparr>project_key = ''P1'', repositories = [], vcs_instance_name = ''vcs1''\<rparr>,
          LogInfo ''Error updating repository in project P1: connection refused'']"
    by (simp add: failing_services_def ex_defs)
  have e: "snd (send_repository_id_to_backend failing_services [] ''vcs1'' ''P3'')
       = [Post ''http://backend:8000/resc/v1/repositories/active'' [(''Content-Type'', ''application/json'')]
            \<lparr>project_key = ''P3'', repositories = [], vcs_instance_name = ''vcs1''\<rparr>,
          LogInfo ''Error updating repository in project P3: 503 Server Error: Service Unavailable for url: http://backend:8000/resc/v1/repositories/active'']"
    by (simp add: failing_services_def ex_defs str_nat.simps digit_char_def)
  have f: "get_repos example_client ''P3'' = Inr [repoD, repoE]"
    by (simp add: example_client_def)
  have g: "fst (extract_loop example_client ''P3'' ''vcs1'' [repoD, repoE] []) = Inr [(''E'', ''xyz'', ''vcs1'')]"
    by (simp add: ex_defs)
  have i: "extract_repository_id_and_name [repoD, repoE]
             = Inr [\<lparr>repo_id = ''4'', repo_name = PyStr ''D''\<rparr>,
                    \<lparr>repo_id = ''5'', repo_name = PyStr ''E''\<rparr>]"
    by (simp add: ex_defs str_int_def str_nat.simps digit_char_def)
  from report_failure_never_propagates [OF h,
         of "[\<lparr>repo_id = ''4'', repo_name = PyStr ''D''\<rparr>, \<lparr>repo_id = ''5'', repo_name = PyStr ''E''\<rparr>]"
            "''vcs1''" "''P3''" example_client "[repoD, repoE]" "[(''E'', ''xyz'', ''vcs1'')]"] f g i
  have j: "fst (extract_project_information failing_services example_client ''P3'' ''vcs1'')
       = Inr [(''E'', ''xyz'', ''vcs1'')]"
    by blast
  from a b c d e j show ?thesis by blast
qed

lemma concat_new_tasks:
  assumes "\<forall>r\<in>set rs. commit_present vc pk r \<longrightarrow> (\<exists>t. exported vc pk vin r = Inr t)"
  shows "map Inr (concat (map (new_tasks vc pk vin) rs))
           = map (exported vc pk vin) (filter (commit_present vc pk) rs)"
  using assms by (induction rs) (auto simp: new_tasks_eq)

text \<open>
  C8. Suppose the connector builds a descriptor for every listed record whose fetched
  commit is present (spec section 4.1: \<open>export_repository\<close> never fails on a present
  commit). Then the task list that \<open>extract_project_information\<close> returns is the listing
  filtered to the records with a present commit, each mapped through
  \<open>export_repository\<close> (with its fetched commit and the run's \<open>vcs_instance_name\<close>), in
  listing order.
\<close>

theorem tasks_mirror_listing_order:
  assumes listing: "get_repos vc pk = Inr repos"
      and returns: "fst (extract_project_information sv vc pk vin) = Inr tasks"
      and builds: "\<forall>r\<in>set repos. commit_present vc pk r \<longrightarrow> (\<exists>t. exported vc pk vin r = Inr t)"
  shows "map Inr tasks = map (exported vc pk vin) (filter (commit_present vc pk) repos)"
proof -
  from extract_returns [OF listing returns]
  have "fst (extract_loop vc pk vin repos []) = Inr tasks" by simp
  from extract_loop_tasks [OF this]
  have "tasks = concat (map (new_tasks vc pk vin) repos)" by simp
  with concat_new_tasks [OF builds] show ?thesis by simp
qed

theorem tasks_mirror_listing_order_witness:
  "get_repos example_client ''P1'' = Inr [repoA, repoB, repoC]
   \<and> filter (commit_present example_client ''P1'') [repoA, repoB, repoC] = [repoA, repoC]
   \<and> map (exported example_client ''P1'' ''vcs1'') [repoA, repoC]
       = [Inr (''A'', ''abc'', ''vcs1''), Inr (''C'', ''def'', ''vcs1'')]
   \<and> map Inr [(''A'', ''abc'', ''vcs1''), (''C'', ''def'', ''vcs1'')]
       = map (exported example_client ''P1'' ''vcs1'')
           (filter (commit_present example_client ''P1'') [repoA, repoB, repoC])"
proof -
  have a: "get_repos example_client ''P1'' = Inr [repoA, repoB, repoC]"
    by (simp add: example_client_def)
  have b: "fst (extract_project_information example_services example_client ''P1'' ''vcs1'')
             = Inr [(''A'', ''abc'', ''vcs1''), (''C'', ''def'', ''vcs1'')]"
    by (simp add: ex_defs)
  have c: "\<forall>r\<in>set [repoA, repoB, repoC]. commit_present example_client ''P1'' r
             \<longrightarrow> (\<exists>t. exported example_client ''P1'' ''vcs1'' r = Inr t)"
    by (simp add: ex_defs)
  have d: "filter (commit_present example_client ''P1'') [repoA, repoB, repoC] = [repoA, repoC]"
    by (simp add: ex_defs)
  have e: "map (exported example_client ''P1'' ''vcs1'') [repoA, repoC]
       = [Inr (''A'', ''abc'', ''vcs1''), Inr (''C'', ''def'', ''vcs1'')]"
    by (simp add: ex_defs)
  from tasks_mirror_listing_order [OF a b c] a d e show ?thesis by blast
qed

lemma process_repository_fetched:
  assumes "fetched_commit vc pk r = Inr c"
  shows "CallExportRepository r c vin \<in> set (snd (process_repository vc pk vin r acc))
       \<and> (\<forall>e. export_repository vc r c vin = Inl e \<and> \<not> is_HTTPError e
              \<longrightarrow> fst (process_repository vc pk vin r acc) = Inl e)"
  using assms
  by (auto simp: fetched_commit_def process_repository_def try_repository_def Let_def
      split: sum.splits)

lemma extract_loop_reaches:
  assumes "fst (extract_loop vc pk vin pre []) = Inr acc"
  shows "set (snd (process_repository vc pk vin r acc))
           \<subseteq> set (snd (extract_loop vc pk vin (pre @ r # post) []))
       \<and> (\<forall>e. fst (process_repository vc pk vin r acc) = Inl e
              \<longrightarrow> fst (extract_loop vc pk vin (pre @ r # post) []) = Inl e)"
proof -
  obtain ev where p: "extract_loop vc pk vin pre [] = (Inr acc, ev)"
    using assms by (cases "extract_loop vc pk vin pre []") simp
  show ?thesis
    by (auto simp: extract_loop_append p split: prod.splits sum.splits)
qed

lemma extract_contains_loop:
  assumes "get_repos vc pk = Inr repos"
  shows "set (snd (extract_loop vc pk vin repos []))
           \<subseteq> set (snd (extract_project_information sv vc pk vin))
       \<and> (\<forall>e. fst (extract_loop vc pk vin repos []) = Inl e
              \<longrightarrow> fst (extract_project_information sv vc pk vin) = Inl e)"
  using assms
  by (auto simp: extract_project_information_def Let_def split: prod.splits sum.splits)

text \<open>
  C9. Take a listed record \<open>r\<close> that the loop reaches and whose commit fetch returns
  \<open>c\<close>, present or absent. The loop calls the connector's \<open>export_repository\<close> on \<open>r\<close>,
  \<open>c\<close> and the run's \<open>vcs_instance_name\<close> before it tests \<open>c\<close>. So if that call raises
  anything but an HTTPError, the extraction ends with that exception, also when \<open>c\<close> is
  absent; and when \<open>c\<close> is absent the call's result is not used: no task is added.
\<close>

theorem export_called_before_commit_test:
  assumes listing: "get_repos vc pk = Inr (pre @ r # post)"
      and before: "fst (extract_loop vc pk vin pre []) = Inr acc"
      and fetched: "fetched_commit vc pk r = Inr c"
  shows "CallExportRepository r c vin \<in> set (snd (extract_project_information sv vc pk vin))
       \<and> (\<forall>e. export_repository vc r c vin = Inl e \<and> \<not> is_HTTPError e
              \<longrightarrow> fst (extract_project_information sv vc pk vin) = Inl e)
       \<and> (\<not> truthy c \<longrightarrow> new_tasks vc pk vin r = [])"
proof -
  note pr = process_repository_fetched [OF fetched, of vin acc]
  note lp = extract_loop_reaches [OF before, of r post]
  note ex = extract_contains_loop [OF listing, of vin sv]
  from pr lp ex have "CallExportRepository r c vin \<in> set (snd (extract_project_information sv vc pk vin))"
    by blast
  moreover from pr lp ex have "\<forall>e. export_repository vc r c vin = Inl e \<and> \<not> is_HTTPError e
              \<longrightarrow> fst (extract_project_information sv vc pk vin) = Inl e"
    by blast
  moreover have "\<not> truthy c \<longrightarrow> new_tasks vc pk vin r = []"
    using new_tasks_absent [OF fetched] by blast
  ultimately show ?thesis by blast
qed


theorem export_called_before_commit_test_witness:
  "fetched_commit example_client ''P1'' repoB = Inr PyNone
   \<and> CallExportRepository repoB PyNone ''vcs1''
       \<in> set (snd (extract_project_information example_services example_client ''P1'' ''vcs1''))
   \<and> new_tasks example_client ''P1'' ''vcs1'' repoB = []
   \<and> export_repository strict_client repoB PyNone ''vcs1''
       = Inl (OtherException ''latest_commit must be a string'')
   \<and> CallExportRepository repoB PyNone ''vcs1''
       \<in> set (snd (extract_project_information example_services strict_client ''P1'' ''vcs1''))
   \<and> fst (extract_project_information example_services strict_client ''P1'' ''vcs1'')
       = Inl (OtherException ''latest_commit must be a string'')"
proof -
  have a: "get_repos example_client ''P1'' = Inr ([repoA] @ repoB # [repoC])"
    by (simp add: example_client_def)
  have b: "fst (extract_loop example_client ''P1'' ''vcs1'' [repoA] []) = Inr [(''A'', ''abc'', ''vcs1'')]"
    by (simp add: ex_defs)
  have c: "fetched_commit example_client ''P1'' repoB = Inr PyNone"
    by (simp add: ex_defs)
  have a': "get_repos strict_client ''P1'' = Inr ([repoA] @ repoB # [repoC])"
    by (simp add: strict_client_def example_client_def)
  have b': "fst (extract_loop strict_client ''P1'' ''vcs1'' [repoA] []) = Inr [(''A'', ''abc'', ''vcs1'')]"
    by (simp add: strict_client_def ex_defs)
  have c': "fetched_commit strict_client ''P1'' repoB = Inr PyNone"
    by (simp add: strict_client_def ex_defs)
  have d: "export_repository strict_client repoB PyNone ''vcs1''
             = Inl (OtherException ''latest_commit must be a string'')"
    by (simp add: strict_client_def)
  have e: "\<not> is_HTTPError (OtherException ''latest_commit must be a string'')" by simp
  have f: "\<not> truthy PyNone" by simp
  from export_called_before_commit_test [OF a b c, where sv = example_services] f
  have g: "CallExportRepository repoB PyNone ''vcs1''
             \<in> set (snd (extract_project_information example_services example_client ''P1'' ''vcs1''))
           \<and> new_tasks example_client ''P1'' ''vcs1'' repoB = []"
    by blast
  from export_called_before_commit_test [OF a' b' c', where sv = example_services] d e
  have h: "CallExportRepository repoB PyNone ''vcs1''
             \<in> set (snd (extract_project_information example_services strict_client ''P1'' ''vcs1''))
           \<and> fst (extract_project_information example_services strict_client ''P1'' ''vcs1'')
               = Inl (OtherException ''latest_commit must be a string'')"
    by blast
  from c d g h show ?thesis by blast
qed

lemma extract_single_post:
  assumes listing: "get_repos vc pk = Inr repos"
      and loop: "fst (extract_loop vc pk vin repos []) = Inr tasks"
      and ids: "extract_repository_id_and_name repos = Inr srs"
  shows "\<exists>url hd. filter is_Post (snd (extract_project_information sv vc pk vin))
           = [Post url hd \<lparr>project_key = pk, repositories = srs, vcs_instance_name = vin\<rparr>]"
proof -
  let ?send = "send_repository_id_to_backend sv srs vin pk"
  let ?lp = "extract_loop vc pk vin repos []"
  from extract_trace [OF listing loop ids, of sv]
  obtain m1 m2 where ex: "snd (extract_project_information sv vc pk vin) =
       [LogInfo m1, CallGetRepos pk, LogInfo m2] @ snd ?lp @ snd ?send"
    by (metis snd_conv)
  from send_backend_events [of sv srs vin pk]
  obtain url hd rest where sd: "snd ?send
       = Post url hd \<lparr>project_key = pk, repositories = srs, vcs_instance_name = vin\<rparr> # rest"
    and rest: "\<forall>x\<in>set rest. \<not> is_Post x \<and> \<not> is_connector_call x \<and> \<not> is_SendTask x"
    by blast
  let ?before = "[LogInfo m1, CallGetRepos pk, LogInfo m2] @ snd ?lp"
  have bf: "\<forall>x\<in>set ?before. \<not> is_Post x"
    using extract_loop_no_post [of _ vc pk vin repos "[]"] by auto
  from ex sd have eq: "snd (extract_project_information sv vc pk vin)
      = ?before @ Post url hd \<lparr>project_key = pk, repositories = srs, vcs_instance_name = vin\<rparr> # rest"
    by simp
  from rest have "\<forall>x\<in>set rest. \<not> is_Post x" by blast
  from single_post [OF eq bf this] show ?thesis by blast
qed

text \<open>
  C10. In a run whose extraction returns, the only post carries a payload with one
  entry per listed record, in listing order: the entry's id is \<open>str\<close> of the record's
  \<open>id\<close> field, whatever its type, and the entry's name is the record's \<open>name\<close> field
  unchanged.
\<close>

theorem payload_ids_and_names:
  assumes listing: "get_repos vc pk = Inr repos"
      and returns: "fst (extract_project_information sv vc pk vin) = Inr tasks"
  shows "\<exists>url hd srs.
           filter is_Post (snd (extract_project_information sv vc pk vin))
             = [Post url hd \<lparr>project_key = pk, repositories = srs, vcs_instance_name = vin\<rparr>]
         \<and> extract_repository_id_and_name repos = Inr srs
         \<and> list_all2 (\<lambda>repo s. \<exists>i n. getitem repo ''id'' = Inr i \<and> getitem repo ''name'' = Inr n
                         \<and> repo_id s = py_str i \<and> repo_name s = n) repos srs"
proof -
  from extract_returns [OF listing returns]
  obtain srs where lp: "fst (extract_loop vc pk vin repos []) = Inr tasks"
    and ids: "extract_repository_id_and_name repos = Inr srs" by blast
  from extract_ids_list_all2 [OF ids]
  have "list_all2 (\<lambda>repo s. \<exists>i n. getitem repo ''id'' = Inr i \<and> getitem repo ''name'' = Inr n
                         \<and> repo_id s = py_str i \<and> repo_name s = n) repos srs"
    by (rule list_all2_mono) auto
  with extract_single_post [OF listing lp ids, of sv] ids show ?thesis by blast
qed

theorem payload_ids_and_names_witness:
  "get_repos example_client ''P1'' = Inr [repoA, repoB, repoC]
   \<and> getitem repoA ''id'' = Inr (PyInt 1) \<and> py_str (PyInt 1) = ''1''
   \<and> getitem repoC ''id'' = Inr (PyStr ''c-3'') \<and> py_str (PyStr ''c-3'') = ''c-3''
   \<and> py_str (PyInt (- 12)) = ''-12'' \<and> py_str PyNone = ''None''
   \<and> filter is_Post (snd (extract_project_information example_services example_client ''P1'' ''vcs1''))
       = [Post ''http://backend:8000/resc/v1/repositories/active'' [(''Content-Type'', ''application/json'')]
            \<lparr>project_key = ''P1'',
               repositories = [\<lparr>repo_id = ''1'', repo_name = PyStr ''A''\<rparr>,
                               \<lparr>repo_id = ''2'', repo_name = PyStr ''B''\<rparr>,
                               \<lparr>repo_id = ''c-3'', repo_name = PyStr ''C''\<rparr>],
               vcs_instance_name = ''vcs1''\<rparr>]
   \<and> (\<exists>url hd srs.
         filter is_Post (snd (extract_project_information example_services example_client ''P1'' ''vcs1''))
           = [Post url hd \<lparr>project_key = ''P1'', repositories = srs, vcs_instance_name = ''vcs1''\<rparr>]
       \<and> extract_repository_id_and_name [repoA, repoB, repoC] = Inr srs
       \<and> list_all2 (\<lambda>repo s. \<exists>i n. getitem repo ''id'' = Inr i \<and> getitem repo ''name'' = Inr n
                       \<and> repo_id s = py_str i \<and> repo_name s = n) [repoA, repoB, repoC] srs)"
proof -
  have a: "get_repos example_client ''P1'' = Inr [repoA, repoB, repoC]"
    by (simp add: example_client_def)
  have b: "fst (extract_project_information example_services example_client ''P1'' ''vcs1'')
             = Inr [(''A'', ''abc'', ''vcs1''), (''C'', ''def'', ''vcs1'')]"
    by (simp add: ex_defs)
  have c: "getitem repoA ''id'' = Inr (PyInt 1) \<and> py_str (PyInt 1) = ''1''
   \<and> getitem repoC ''id'' = Inr (PyStr ''c-3'') \<and> py_str (PyStr ''c-3'') = ''c-3''
   \<and> py_str (PyInt (- 12)) = ''-12'' \<and> py_str PyNone = ''None''"
    by (simp add: ex_defs str_int_def str_nat.simps digit_char_def)
  have d: "filter is_Post (snd (extract_project_information example_services example_client ''P1'' ''vcs1''))
       = [Post ''http://backend:8000/resc/v1/repositories/active'' [(''Content-Type'', ''application/json'')]
            \<lparr>project_key = ''P1'',
               repositories = [\<lparr>repo_id = ''1'', repo_name = PyStr ''A''\<rparr>,
                               \<lparr>repo_id = ''2'', repo_name = PyStr ''B''\<rparr>,
                               \<lparr>repo_id = ''c-3'', repo_name = PyStr ''C''\<rparr>],
               vcs_instance_name = ''vcs1''\<rparr>]"
    by (simp add: ex_defs str_int_def str_nat.simps digit_char_def)
  from payload_ids_and_names [OF a b] a c d show ?thesis by blast
qed

end
